theory Spec2Isabelle
  imports Complex_Main "HOL-Library.Multiset"
begin

section \<open>Values, exceptions and the host platform\<close>

text \<open>
  The module \<^verbatim>\<open>qutel_car_events/api/uom_helper.py\<close> consists of six remote-callable
  functions. Each of them wraps its body in \<^verbatim>\<open>try: ... except Exception as e\<close>; the handler
  only uses \<^verbatim>\<open>str(e)\<close>, so an exception is represented by its text, and a computation
  that may raise has type \<open>exn + 'a\<close> (\<open>Inl\<close> is the raise). The functions themselves
  have such a type: \<open>Inl\<close> is an exception that reaches the caller, \<open>Inr\<close> the returned
  dictionary together with the entries written to the error log.

  Python floats are idealised as reals: the functions only multiply, divide, add and compare
  them, and the statements below apply the operations in the order of the code.
\<close>

type_synonym exn = string

text \<open>An entry written by \<^verbatim>\<open>frappe.log_error(message, title)\<close>.\<close>

type_synonym log_entry = "string \<times> string option"

text \<open>A value decoded from JSON (or passed as a Python object by the caller).\<close>

datatype json =
    JNull
  | JBool bool
  | JInt int
  | JNum real
  | JStr string
  | JList "json list"
  | JDict "(string \<times> json) list"

text \<open>A row of the child table \<^verbatim>\<open>item.uoms\<close> and an Item document.\<close>

record uom_detail =
  uom :: string
  conversion_factor :: real

record item_doc =
  stock_uom :: string
  uoms :: "uom_detail list"

text \<open>Rows of the tables read by the diagnostic report.\<close>

record custom_field =
  fieldname :: string
  dt :: string

record item_row =
  item_name :: string
  item_stock_uom :: string
  has_variants :: int

record conversion_row =
  parent :: string
  conversion_uom :: string
  conversion_value :: real

text \<open>
  Everything the module imports from the framework and from the standard library. None of it
  is code of this repository, so it is a parameter of every function:
  \<^item> \<open>tr\<close> is \<^verbatim>\<open>frappe._\<close> and \<open>format\<close> is \<^verbatim>\<open>str.format\<close>;
  \<^item> \<open>get_cached_doc c\<close> is \<^verbatim>\<open>frappe.get_cached_doc("Item", c)\<close>;
  \<^item> \<open>get_single_value\<close> is the truth value of
    \<^verbatim>\<open>frappe.db.get_single_value("Stock Settings", "allow_uom_with_conversion_rate_defined_in_item")\<close>;
  \<^item> \<open>get_conversion_factor\<close> is \<^verbatim>\<open>erpnext.stock.get_item_details.get_conversion_factor\<close>,
    returning a dictionary;
  \<^item> \<open>json_loads\<close>, \<open>flt\<close> and \<open>getdate\<close> are \<^verbatim>\<open>json.loads\<close>, \<^verbatim>\<open>frappe.utils.flt\<close>
    and \<^verbatim>\<open>frappe.utils.getdate\<close> (a date is its day number);
  \<^item> \<open>get_single\<close> is the same flag read through \<^verbatim>\<open>frappe.get_single("Stock Settings")\<close>;
  \<^item> \<open>tabCustom_Field\<close>, \<open>tabItem\<close> and \<open>tabUOM_Conversion_Detail\<close> are the tables read
    by \<^verbatim>\<open>frappe.db.sql\<close> and \<^verbatim>\<open>frappe.get_all\<close>; reading one may raise;
  \<^item> \<open>log_error text title\<close> is \<^verbatim>\<open>frappe.log_error(text, title)\<close>, which writes an Error
    Log document: \<open>None\<close> when it returns, \<open>Some x\<close> when it raises \<open>x\<close>.
  The translation \<open>tr\<close> and \<open>format\<close> are functions on strings: they are taken not to
  raise.
\<close>

record platform =
  tr :: "string \<Rightarrow> string"
  format :: "string \<Rightarrow> json list \<Rightarrow> string"
  get_cached_doc :: "string \<Rightarrow> exn + item_doc option"
  get_single_value :: "exn + bool"
  get_conversion_factor :: "string \<Rightarrow> string \<Rightarrow> exn + (string \<times> real) list"
  json_loads :: "string \<Rightarrow> exn + json"
  flt :: "json \<Rightarrow> real"
  getdate :: "json \<Rightarrow> exn + int"
  get_single :: "exn + bool"
  tabCustom_Field :: "exn + custom_field list"
  tabItem :: "exn + item_row list"
  tabUOM_Conversion_Detail :: "exn + conversion_row list"
  log_error :: "string \<Rightarrow> string option \<Rightarrow> exn option"

text \<open>Sequencing of statements that may raise.\<close>

definition and_then :: "exn + 'a \<Rightarrow> ('a \<Rightarrow> exn + 'b) \<Rightarrow> exn + 'b" where
  "and_then m f = (case m of Inl e \<Rightarrow> Inl e | Inr x \<Rightarrow> f x)"

text \<open>
  The two shapes of a returned dictionary that all functions share:
  \<^verbatim>\<open>{"success": False, "message": m}\<close> and \<^verbatim>\<open>{"success": True, ...}\<close>.
\<close>

datatype 'a response = Failure string | Success 'a

text \<open>
  The handler \<^verbatim>\<open>except Exception as e\<close> of every function first calls
  \<^verbatim>\<open>frappe.log_error\<close> and then returns its dictionary. The handler is outside the
  \<^verbatim>\<open>try\<close> block, so an exception raised by the logging leaves the function.
\<close>

definition log_then_return ::
  "platform \<Rightarrow> string \<Rightarrow> string option \<Rightarrow> 'a \<Rightarrow> exn + 'a \<times> log_entry list" where
  "log_then_return pf text title r =
     (case log_error pf text title of
        Some x \<Rightarrow> Inl x
      | None \<Rightarrow> Inr (r, [(text, title)]))"

section \<open>Python built-ins used by the module\<close>

text \<open>Truth value of an object, as tested by \<^verbatim>\<open>if x\<close>, \<^verbatim>\<open>x and y\<close>, \<^verbatim>\<open>not x\<close>.\<close>

fun truthy :: "json \<Rightarrow> bool" where
  "truthy JNull = False"
| "truthy (JBool b) = b"
| "truthy (JInt i) = (i \<noteq> 0)"
| "truthy (JNum x) = (x \<noteq> 0)"
| "truthy (JStr s) = (s \<noteq> [])"
| "truthy (JList xs) = (xs \<noteq> [])"
| "truthy (JDict kvs) = (kvs \<noteq> [])"

fun type_name :: "json \<Rightarrow> string" where
  "type_name JNull = ''NoneType''"
| "type_name (JBool b) = ''bool''"
| "type_name (JInt i) = ''int''"
| "type_name (JNum x) = ''float''"
| "type_name (JStr s) = ''str''"
| "type_name (JList xs) = ''list''"
| "type_name (JDict kvs) = ''dict''"

definition quoted :: "string \<Rightarrow> string" where
  "quoted s = [CHR 0x27] @ s @ [CHR 0x27]"

text \<open>\<^verbatim>\<open>obj.get(key, default)\<close>: only a dictionary has the method.\<close>

definition dict_get :: "(string \<times> json) list \<Rightarrow> string \<Rightarrow> json \<Rightarrow> json" where
  "dict_get kvs k d = (case map_of kvs k of Some v \<Rightarrow> v | None \<Rightarrow> d)"

fun py_get :: "json \<Rightarrow> string \<Rightarrow> json \<Rightarrow> exn + json" where
  "py_get (JDict kvs) k d = Inr (dict_get kvs k d)"
| "py_get v k d =
     Inl (quoted (type_name v) @ '' object has no attribute '' @ quoted ''get'')"

text \<open>
  \<^verbatim>\<open>sorted(xs, key=key, reverse=True)\<close>: the list is reversed, sorted by a stable ascending
  sort, and reversed again, so that equal keys keep their original order.
\<close>

definition sorted_reverse :: "('a \<Rightarrow> 'k::linorder) \<Rightarrow> 'a list \<Rightarrow> 'a list" where
  "sorted_reverse key xs = rev (sort_key key (rev xs))"





text \<open>
  Float division \<^verbatim>\<open>a / b\<close>, which raises \<^verbatim>\<open>ZeroDivisionError\<close> on a zero divisor.
\<close>

definition truediv :: "real \<Rightarrow> real \<Rightarrow> exn + real" where
  "truediv a b = (if b = 0 then Inl ''float division by zero'' else Inr (a / b))"

text \<open>
  \<^verbatim>\<open>json.loads(x) if isinstance(x, str) else x\<close> (lines 139 and 209).
\<close>

definition loads_if_str :: "platform \<Rightarrow> json \<Rightarrow> exn + json" where
  "loads_if_str pf x = (case x of JStr s \<Rightarrow> json_loads pf s | _ \<Rightarrow> Inr x)"

text \<open>
  Reading a global name inside a function: the name has to be bound in the function or at
  module level, otherwise \<^verbatim>\<open>NameError\<close> is raised.
\<close>

definition load_name :: "string list \<Rightarrow> string \<Rightarrow> exn + unit" where
  "load_name scope n =
     (if n \<in> set scope then Inr () else Inl (''name '' @ quoted n @ '' is not defined''))"

text \<open>
  The names bound at module level: the imports of lines 11 to 13 and the six functions.
\<close>

definition module_names :: "string list" where
  "module_names =
     [''frappe'', ''_'', ''Dict'', ''List'', ''Optional'', ''Any'',
      ''get_item_uoms_with_conversion'', ''get_uom_conversion_factor'',
      ''get_opportunity_calculations'', ''validate_opportunity_data'',
      ''get_item_uoms_and_conversion'', ''validate_integration_status'']"

section \<open>UOM lookup\<close>

text \<open>The dictionary built for one row of \<^verbatim>\<open>item.uoms\<close> (lines 55-59 and 314-318).\<close>

record uom_entry =
  entry_uom :: string
  entry_conversion_factor :: real
  is_stock_uom :: bool

definition uom_entry_of :: "string \<Rightarrow> uom_detail \<Rightarrow> uom_entry" where
  "uom_entry_of stock d =
     \<lparr>entry_uom = uom d, entry_conversion_factor = conversion_factor d,
      is_stock_uom = (uom d = stock)\<rparr>"

text \<open>The single entry of the "traditional method" (lines 66-70 and 338-342).\<close>

definition stock_uom_entry :: "string \<Rightarrow> uom_entry" where
  "stock_uom_entry stock =
     \<lparr>entry_uom = stock, entry_conversion_factor = 1, is_stock_uom = True\<rparr>"

subsection \<open>\<^verbatim>\<open>get_item_uoms_with_conversion\<close>\<close>

record item_uoms =
  iu_item_code :: string
  iu_stock_uom :: string
  iu_uoms :: "uom_entry list"
  iu_default_uom :: string
  iu_allow_uom_conversion :: bool

text \<open>The body of the \<^verbatim>\<open>try\<close> block (lines 31-72).\<close>

definition get_item_uoms_with_conversion_try ::
  "platform \<Rightarrow> string \<Rightarrow> exn + item_uoms response" where
  "get_item_uoms_with_conversion_try pf item_code =
     and_then (get_cached_doc pf item_code) (\<lambda>found.
       case found of
         None \<Rightarrow> Inr (Failure (tr pf ''Item not found''))
       | Some item \<Rightarrow>
           and_then (get_single_value pf) (\<lambda>allow_uom_conversion.
             Inr (Success
               \<lparr>iu_item_code = item_code,
                iu_stock_uom = stock_uom item,
                iu_uoms =
                  (if allow_uom_conversion \<and> uoms item \<noteq> []
                   then sorted_reverse is_stock_uom
                          (map (uom_entry_of (stock_uom item)) (uoms item))
                   else [stock_uom_entry (stock_uom item)]),
                iu_default_uom = stock_uom item,
                iu_allow_uom_conversion = allow_uom_conversion\<rparr>)))"

definition get_item_uoms_with_conversion ::
  "platform \<Rightarrow> string \<Rightarrow> exn + item_uoms response \<times> log_entry list" where
  "get_item_uoms_with_conversion pf item_code =
     (if item_code = [] then Inr (Failure (tr pf ''Item Code is required''), [])
      else case get_item_uoms_with_conversion_try pf item_code of
             Inr r \<Rightarrow> Inr (r, [])
           | Inl e \<Rightarrow>
               log_then_return pf (''Error in get_item_uoms_with_conversion: '' @ e) None
                 (Failure (format pf (tr pf ''Error fetching UOM data: {0}'') [JStr e])))"

subsection \<open>\<^verbatim>\<open>get_uom_conversion_factor\<close>\<close>




subsection \<open>\<^verbatim>\<open>get_item_uoms_and_conversion\<close>\<close>

text \<open>
  This function returns the keys \<^verbatim>\<open>uoms\<close>, \<^verbatim>\<open>conversion_factor\<close> and \<^verbatim>\<open>stock_uom\<close> on
  every path, \<^verbatim>\<open>message\<close> only on failure and \<^verbatim>\<open>allow_custom_uom\<close> only on success.
\<close>

record uoms_and_conversion =
  uc_success :: bool
  uc_message :: "string option"
  uc_uoms :: "uom_entry list"
  uc_conversion_factor :: real
  uc_stock_uom :: "string option"
  uc_allow_custom_uom :: "bool option"

definition uc_failure :: "string \<Rightarrow> uoms_and_conversion" where
  "uc_failure m =
     \<lparr>uc_success = False, uc_message = Some m, uc_uoms = [], uc_conversion_factor = 1,
      uc_stock_uom = None, uc_allow_custom_uom = None\<rparr>"

text \<open>
  The first loop with \<^verbatim>\<open>break\<close> of lines 322-325: the factor of the first row whose
  unit is the requested one, or nothing when the loop runs to its \<^verbatim>\<open>else\<close>.
\<close>

fun find_uom :: "uom_detail list \<Rightarrow> string \<Rightarrow> real option" where
  "find_uom [] u = None"
| "find_uom (d # ds) u = (if uom d = u then Some (conversion_factor d) else find_uom ds u)"

text \<open>Lines 321-335: the search for the factor of the requested unit.\<close>

definition requested_factor ::
  "platform \<Rightarrow> string \<Rightarrow> item_doc \<Rightarrow> string option \<Rightarrow> exn + real" where
  "requested_factor pf item_code item_doc req =
     (case req of
        None \<Rightarrow> Inr 1
      | Some u \<Rightarrow>
          if u = [] then Inr 1
          else case find_uom (uoms item_doc) u of
                 Some f \<Rightarrow> Inr f
               | None \<Rightarrow>
                   if u = stock_uom item_doc then Inr 1
                   else and_then (get_conversion_factor pf item_code u) (\<lambda>result.
                          case map_of result ''conversion_factor'' of
                            Some f \<Rightarrow> Inr f
                          | None \<Rightarrow> Inr 1))"

definition get_item_uoms_and_conversion_try ::
  "platform \<Rightarrow> string \<Rightarrow> string option \<Rightarrow> exn + uoms_and_conversion" where
  "get_item_uoms_and_conversion_try pf item_code req =
     (if item_code = [] then Inr (uc_failure (tr pf ''Item Code is required''))
      else
        and_then (get_cached_doc pf item_code) (\<lambda>found.
          case found of
            None \<Rightarrow> Inr (uc_failure (format pf (tr pf ''Item {0} not found'') [JStr item_code]))
          | Some item_doc \<Rightarrow>
              and_then (get_single_value pf) (\<lambda>allow_custom_uom.
                if allow_custom_uom \<and> uoms item_doc \<noteq> [] then
                  and_then (requested_factor pf item_code item_doc req) (\<lambda>f.
                    Inr \<lparr>uc_success = True, uc_message = None,
                         uc_uoms = map (uom_entry_of (stock_uom item_doc)) (uoms item_doc),
                         uc_conversion_factor = f,
                         uc_stock_uom = Some (stock_uom item_doc),
                         uc_allow_custom_uom = Some allow_custom_uom\<rparr>)
                else
                  Inr \<lparr>uc_success = True, uc_message = None,
                       uc_uoms = [stock_uom_entry (stock_uom item_doc)],
                       uc_conversion_factor =
                         (if req = None \<or> req = Some [] \<or> req = Some (stock_uom item_doc)
                          then 1 else 1),
                       uc_stock_uom = Some (stock_uom item_doc),
                       uc_allow_custom_uom = Some allow_custom_uom\<rparr>)))"

definition get_item_uoms_and_conversion ::
  "platform \<Rightarrow> string \<Rightarrow> string option \<Rightarrow>
   exn + uoms_and_conversion \<times> log_entry list" where
  "get_item_uoms_and_conversion pf item_code req =
     (case get_item_uoms_and_conversion_try pf item_code req of
        Inr r \<Rightarrow> Inr (r, [])
      | Inl e \<Rightarrow>
          log_then_return pf (''Error in get_item_uoms_and_conversion: '' @ e)
            (Some ''UOM Helper Error'')
            (uc_failure (format pf (tr pf ''Error fetching UOM data: {0}'') [JStr e])))"

section \<open>Opportunity calculations\<close>

subsection \<open>\<^verbatim>\<open>get_opportunity_calculations\<close>\<close>

record calc_row =
  row_item_code :: json
  row_qty :: real
  row_rate :: real
  row_conversion_factor :: real
  row_stock_qty :: real
  row_amount :: real
  row_stock_uom_rate :: real
  row_people_qty :: real

record calculations =
  calc_items :: "calc_row list"
  total_people_qty :: real
  total_amount :: real

text \<open>One pass of the loop body, lines 149-177, up to the dictionary appended.\<close>

definition calc_item :: "platform \<Rightarrow> json \<Rightarrow> exn + calc_row" where
  "calc_item pf item =
     and_then (py_get item ''item_code'' JNull) (\<lambda>item_code.
     and_then (py_get item ''qty'' (JInt 0)) (\<lambda>q.
     and_then (py_get item ''rate'' (JInt 0)) (\<lambda>r.
     and_then (py_get item ''conversion_factor'' (JInt 1)) (\<lambda>c.
     and_then (py_get item ''custom__people_qty'' (JInt 0)) (\<lambda>p.
       let qty = flt pf q;
           rate = flt pf r;
           conversion_factor = flt pf c;
           people_qty = flt pf p;
           stock_qty = qty * conversion_factor;
           amount = stock_qty * rate
       in and_then (if conversion_factor > 0 then truediv rate conversion_factor else Inr 0)
            (\<lambda>stock_uom_rate.
               Inr \<lparr>row_item_code = item_code, row_qty = qty, row_rate = rate,
                    row_conversion_factor = conversion_factor, row_stock_qty = stock_qty,
                    row_amount = amount, row_stock_uom_rate = stock_uom_rate,
                    row_people_qty = people_qty\<rparr>))))))"

text \<open>
  The loop of lines 148-177 with its three accumulators \<^verbatim>\<open>results\<close>, \<^verbatim>\<open>total_people\<close>
  and \<^verbatim>\<open>total_amount\<close>; an exception in one pass leaves the loop.
\<close>

fun calc_loop ::
  "platform \<Rightarrow> json list \<Rightarrow> calc_row list \<times> real \<times> real \<Rightarrow>
   exn + calc_row list \<times> real \<times> real" where
  "calc_loop pf [] acc = Inr acc"
| "calc_loop pf (item # items) (results, total_people, total_amt) =
     and_then (calc_item pf item) (\<lambda>row.
       calc_loop pf items
         (results @ [row], total_people + row_people_qty row, total_amt + row_amount row))"

definition get_opportunity_calculations_try ::
  "platform \<Rightarrow> json \<Rightarrow> exn + calculations response" where
  "get_opportunity_calculations_try pf items_data =
     and_then (loads_if_str pf items_data) (\<lambda>items.
       case items of
         JList xs \<Rightarrow>
           and_then (calc_loop pf xs ([], 0, 0)) (\<lambda>(results, total_people, total_amt).
             Inr (Success \<lparr>calc_items = results, total_people_qty = total_people,
                           total_amount = total_amt\<rparr>))
       | _ \<Rightarrow> Inr (Failure (tr pf ''Invalid items data format'')))"

definition get_opportunity_calculations ::
  "platform \<Rightarrow> json \<Rightarrow> exn + calculations response \<times> log_entry list" where
  "get_opportunity_calculations pf items_data =
     (case get_opportunity_calculations_try pf items_data of
        Inr r \<Rightarrow> Inr (r, [])
      | Inl e \<Rightarrow>
          log_then_return pf (''Error in get_opportunity_calculations: '' @ e)
            (Some ''UOM Helper Error'')
            (Failure (format pf (tr pf ''Error calculating amounts: {0}'') [JStr e])))"

subsection \<open>\<^verbatim>\<open>validate_opportunity_data\<close>\<close>

record validation =
  valid :: bool
  validation_errors :: "string list"
  validation_warnings :: "string list"
  validation_total_people_qty :: real

text \<open>
  The names the function imports itself, at lines 206 and 207. It calls \<^verbatim>\<open>flt\<close> at lines
  217 and 230, and \<^verbatim>\<open>flt\<close> is imported only inside \<^verbatim>\<open>get_opportunity_calculations\<close>
  (line 137), which does not bind it here.
\<close>

definition validate_opportunity_data_imports :: "string list" where
  "validate_opportunity_data_imports = [''json'', ''getdate'', ''date_diff'']"

text \<open>\<^verbatim>\<open>getdate(a) > getdate(b)\<close>.\<close>

definition date_after :: "platform \<Rightarrow> json \<Rightarrow> json \<Rightarrow> exn + bool" where
  "date_after pf a b =
     and_then (getdate pf a) (\<lambda>x. and_then (getdate pf b) (\<lambda>y. Inr (x > y)))"

text \<open>\<^verbatim>\<open>getdate(a) < getdate(b)\<close>.\<close>

definition date_before :: "platform \<Rightarrow> json \<Rightarrow> json \<Rightarrow> exn + bool" where
  "date_before pf a b =
     and_then (getdate pf a) (\<lambda>x. and_then (getdate pf b) (\<lambda>y. Inr (x < y)))"

text \<open>
  A guarded date check: when both values are truthy and the comparison of the two dates
  holds, the message is appended to the errors.
\<close>

definition check_dates ::
  "(json \<Rightarrow> json \<Rightarrow> exn + bool) \<Rightarrow> json \<Rightarrow> json \<Rightarrow> string \<Rightarrow> string list \<Rightarrow>
   exn + string list" where
  "check_dates cmp a b msg errors =
     (if truthy a \<and> truthy b
      then and_then (cmp a b) (\<lambda>bad. Inr (if bad then errors @ [msg] else errors))
      else Inr errors)"

text \<open>Iteration over an object, as \<^verbatim>\<open>enumerate\<close> does.\<close>

fun py_iter :: "json \<Rightarrow> exn + json list" where
  "py_iter (JList xs) = Inr xs"
| "py_iter (JStr s) = Inr (map (\<lambda>c. JStr [c]) s)"
| "py_iter (JDict kvs) = Inr (map (\<lambda>kv. JStr (fst kv)) kvs)"
| "py_iter v = Inl (quoted (type_name v) @ '' object is not iterable'')"

text \<open>The loop of lines 227-245; \<open>idx\<close> counts the rows from 1.\<close>

fun validate_items ::
  "platform \<Rightarrow> json \<Rightarrow> json \<Rightarrow> int \<Rightarrow> json list \<Rightarrow> string list \<times> real \<Rightarrow>
   exn + string list \<times> real" where
  "validate_items pf opp_start_date opp_end_date idx [] acc = Inr acc"
| "validate_items pf opp_start_date opp_end_date idx (item # items) (errors, total_people) =
     and_then (py_get item ''custom_event_start_date'' JNull) (\<lambda>event_start.
     and_then (py_get item ''custom_event_end_date'' JNull) (\<lambda>event_end.
     and_then (py_get item ''custom__people_qty'' (JInt 0)) (\<lambda>p.
     and_then (check_dates (date_before pf) event_start opp_start_date
                 (format pf
                    (tr pf ''Row {0}: Event start date cannot be before opportunity start date'')
                    [JInt idx]) errors) (\<lambda>errors1.
     and_then (check_dates (date_after pf) event_end opp_end_date
                 (format pf
                    (tr pf ''Row {0}: Event end date cannot be after opportunity expected closing'')
                    [JInt idx]) errors1) (\<lambda>errors2.
     and_then (check_dates (date_after pf) event_start event_end
                 (format pf
                    (tr pf ''Row {0}: Event start date cannot be after event end date'')
                    [JInt idx]) errors2) (\<lambda>errors3.
       validate_items pf opp_start_date opp_end_date (idx + 1) items
         (errors3, total_people + flt pf p)))))))"

text \<open>
  The body of the \<^verbatim>\<open>try\<close> block, lines 206-257. The first use of \<^verbatim>\<open>flt\<close> is the call
  of line 217, whose callee is looked up before its argument is evaluated.
\<close>

definition validate_opportunity_data_try ::
  "platform \<Rightarrow> json \<Rightarrow> exn + validation response" where
  "validate_opportunity_data_try pf opportunity_data =
     and_then (loads_if_str pf opportunity_data) (\<lambda>data.
     and_then (py_get data ''custom_opportunity_start_date'' JNull) (\<lambda>opp_start_date.
     and_then (py_get data ''expected_closing'' JNull) (\<lambda>opp_end_date.
     and_then (load_name (validate_opportunity_data_imports @ module_names) ''flt'') (\<lambda>_.
     and_then (py_get data ''custom_opportunity_people_qty'' (JInt 0)) (\<lambda>m.
     let max_people = flt pf m in
     and_then (check_dates (date_after pf) opp_start_date opp_end_date
                 (tr pf ''Opportunity start date cannot be after expected closing date'') [])
       (\<lambda>errors0.
     and_then (py_get data ''items'' (JList [])) (\<lambda>items.
     and_then (py_iter items) (\<lambda>rows.
     and_then (validate_items pf opp_start_date opp_end_date 1 rows (errors0, 0))
       (\<lambda>(errors, total_people).
         Inr (Success
           \<lparr>valid = (length errors = 0),
            validation_errors = errors,
            validation_warnings =
              (if max_people > 0 \<and> total_people > max_people
               then [format pf
                       (tr pf ''Total people quantity ({0}) exceeds maximum allowed ({1})'')
                       [JNum total_people, JNum max_people]]
               else []),
            validation_total_people_qty = total_people\<rparr>))))))))))"

definition validate_opportunity_data ::
  "platform \<Rightarrow> json \<Rightarrow> exn + validation response \<times> log_entry list" where
  "validate_opportunity_data pf opportunity_data =
     (case validate_opportunity_data_try pf opportunity_data of
        Inr r \<Rightarrow> Inr (r, [])
      | Inl e \<Rightarrow>
          log_then_return pf (''Error in validate_opportunity_data: '' @ e) None
            (Failure (format pf (tr pf ''Error validating data: {0}'') [JStr e])))"

section \<open>Diagnostic report\<close>

subsection \<open>\<^verbatim>\<open>validate_integration_status\<close>\<close>

record custom_fields_check =
  expected :: "string list"
  found :: "string list"
  missing :: "string list"
  custom_fields_status :: string

record sample_item =
  sample_name :: string
  sample_stock_uom :: string
  conversions_count :: nat

record status_report =
  integration_status :: string
  check_allow_uom_conversion :: bool
  check_custom_fields :: custom_fields_check
  check_uom_conversions :: "sample_item list"
  check_api_endpoints :: "string option"
  warnings :: "string list"
  errors :: "string list"











section \<open>A sample installation\<close>

text \<open>
  A platform with one item, used to run the functions on concrete inputs. Its \<open>flt\<close>
  converts numbers and booleans and gives 0 for everything else; its \<open>format\<close> replaces
  the fields \<^verbatim>\<open>{0}\<close> and \<^verbatim>\<open>{1}\<close> of the template by its string arguments and leaves
  other text as it is; its \<open>log_error\<close> returns.
\<close>

fun sample_flt :: "json \<Rightarrow> real" where
  "sample_flt (JInt i) = of_int i"
| "sample_flt (JNum x) = x"
| "sample_flt (JBool b) = (if b then 1 else 0)"
| "sample_flt v = 0"

fun sample_getdate :: "json \<Rightarrow> exn + int" where
  "sample_getdate (JInt d) = Inr d"
| "sample_getdate v = Inl ''Invalid date''"

fun field_text :: "json list \<Rightarrow> nat \<Rightarrow> string" where
  "field_text args n =
     (if n < length args then (case args ! n of JStr s \<Rightarrow> s | _ \<Rightarrow> ''?'') else [])"

fun sample_format :: "string \<Rightarrow> json list \<Rightarrow> string" where
  "sample_format [] args = []"
| "sample_format [c] args = [c]"
| "sample_format [c, d] args = [c, d]"
| "sample_format (c # d # e # cs) args =
     (if [c, d, e] = ''{0}'' then field_text args 0 @ sample_format cs args
      else if [c, d, e] = ''{1}'' then field_text args 1 @ sample_format cs args
      else c # sample_format (d # e # cs) args)"

definition sample_item_doc :: item_doc where
  "sample_item_doc =
     \<lparr>stock_uom = ''Nos'',
      uoms = [\<lparr>uom = ''Box'', conversion_factor = 12\<rparr>,
              \<lparr>uom = ''Nos'', conversion_factor = 1\<rparr>,
              \<lparr>uom = ''Pack'', conversion_factor = 6\<rparr>]\<rparr>"

definition sample_platform :: platform where
  "sample_platform =
     \<lparr>tr = (\<lambda>s. s),
      format = sample_format,
      get_cached_doc =
        (\<lambda>c. if c = ''CAR-1'' then Inr (Some sample_item_doc)
              else Inl (''Item '' @ c @ '' not found'')),
      get_single_value = Inr True,
      get_conversion_factor =
        (\<lambda>c u. if u = ''Dozen'' then Inr [(''conversion_factor'', 12)] else Inr []),
      json_loads = (\<lambda>s. Inl ''Expecting value''),
      flt = sample_flt,
      getdate = sample_getdate,
      get_single = Inr True,
      tabCustom_Field =
        Inr [\<lparr>fieldname = ''custom_stock_qty'', dt = ''Opportunity Item''\<rparr>,
             \<lparr>fieldname = ''custom__people_qty'', dt = ''Opportunity Item''\<rparr>,
             \<lparr>fieldname = ''custom_stock_uom_rate'', dt = ''Opportunity''\<rparr>],
      tabItem =
        Inr [\<lparr>item_name = ''CAR-1'', item_stock_uom = ''Nos'', has_variants = 0\<rparr>],
      tabUOM_Conversion_Detail =
        Inr [\<lparr>parent = ''CAR-1'', conversion_uom = ''Box'', conversion_value = 12\<rparr>],
      log_error = (\<lambda>text title. None)\<rparr>"




section \<open>Properties of the UOM lookup\<close>

subsection \<open>Sorting by a boolean key\<close>

text \<open>
  With keys in \<open>bool\<close>, the stable ascending sort puts the elements with key \<open>False\<close>
  first and keeps the order inside both groups; the reversed sort puts the elements with
  key \<open>True\<close> first, again in their original order.
\<close>

lemma insort_key_False: "\<not> f x \<Longrightarrow> insort_key f x ys = x # ys"
  by (cases ys) simp_all

lemma insort_key_True_filter: "f x \<Longrightarrow> insort_key f x (filter f zs) = x # filter f zs"
  by (cases "filter f zs") (auto simp: filter_eq_Cons_iff)

lemma insort_key_True:
  "f x \<Longrightarrow> insort_key f x (filter (\<lambda>y. \<not> f y) ys @ filter f zs)
     = filter (\<lambda>y. \<not> f y) ys @ x # filter f zs"
  by (induction ys) (simp_all add: insort_key_True_filter)

lemma sort_key_bool: "sort_key f xs = filter (\<lambda>y. \<not> f y) xs @ filter f xs"
  by (induction xs) (simp_all add: insort_key_False insort_key_True)

lemma sorted_reverse_bool:
  "sorted_reverse f xs = filter f xs @ filter (\<lambda>y. \<not> f y) xs"
  by (simp add: sorted_reverse_def sort_key_bool rev_filter)

lemma filter_entries:
  "filter is_stock_uom (map (uom_entry_of s) ds)
     = map (uom_entry_of s) (filter (\<lambda>d. uom d = s) ds)"
  "filter (\<lambda>e. \<not> is_stock_uom e) (map (uom_entry_of s) ds)
     = map (uom_entry_of s) (filter (\<lambda>d. uom d \<noteq> s) ds)"
  by (induction ds) (simp_all add: uom_entry_of_def)

subsection \<open>The successful paths\<close>

lemma with_conversion_success:
  assumes "item_code \<noteq> []"
    and "get_cached_doc pf item_code = Inr (Some item)"
    and "get_single_value pf = Inr allow"
  shows "get_item_uoms_with_conversion pf item_code =
           Inr (Success
              \<lparr>iu_item_code = item_code, iu_stock_uom = stock_uom item,
               iu_uoms =
                 (if allow \<and> uoms item \<noteq> []
                  then sorted_reverse is_stock_uom
                         (map (uom_entry_of (stock_uom item)) (uoms item))
                  else [stock_uom_entry (stock_uom item)]),
               iu_default_uom = stock_uom item, iu_allow_uom_conversion = allow\<rparr>, [])"
  using assms
  by (simp add: get_item_uoms_with_conversion_def get_item_uoms_with_conversion_try_def
      and_then_def)

text \<open>
  Claim C6. In \<^verbatim>\<open>get_item_uoms_with_conversion\<close>, when UOM conversion is allowed and the
  item has UOM rows, the returned list is the rows sorted by \<^verbatim>\<open>is_stock_uom\<close> in descending
  order: first the entries of the rows whose unit is the stock UOM, then the entries of the
  other rows, both groups in the order of the item's UOM table.
\<close>

theorem uoms_sorted_stock_first:
  assumes "item_code \<noteq> []"
    and "get_cached_doc pf item_code = Inr (Some item)"
    and "get_single_value pf = Inr True"
    and "uoms item \<noteq> []"
  shows "\<exists>r. get_item_uoms_with_conversion pf item_code = Inr (Success r, []) \<and>
             iu_uoms r =
               map (uom_entry_of (stock_uom item))
                 (filter (\<lambda>d. uom d = stock_uom item) (uoms item)) @
               map (uom_entry_of (stock_uom item))
                 (filter (\<lambda>d. uom d \<noteq> stock_uom item) (uoms item))"
  using with_conversion_success [OF assms(1,2,3)] assms(4)
  by (simp add: sorted_reverse_bool filter_entries)

theorem uoms_sorted_stock_first_witness:
  "''CAR-1'' \<noteq> [] \<and>
   get_cached_doc sample_platform ''CAR-1'' = Inr (Some sample_item_doc) \<and>
   get_single_value sample_platform = Inr True \<and>
   uoms sample_item_doc \<noteq> [] \<and>
   (\<exists>r. get_item_uoms_with_conversion sample_platform ''CAR-1'' = Inr (Success r, []) \<and>
        iu_uoms r =
          [\<lparr>entry_uom = ''Nos'', entry_conversion_factor = 1, is_stock_uom = True\<rparr>,
           \<lparr>entry_uom = ''Box'', entry_conversion_factor = 12, is_stock_uom = False\<rparr>,
           \<lparr>entry_uom = ''Pack'', entry_conversion_factor = 6, is_stock_uom = False\<rparr>])"
proof -
  have h1: "''CAR-1'' \<noteq> []" by simp
  have h2: "get_cached_doc sample_platform ''CAR-1'' = Inr (Some sample_item_doc)"
    by (simp add: sample_platform_def)
  have h3: "get_single_value sample_platform = Inr True"
    by (simp add: sample_platform_def)
  have h4: "uoms sample_item_doc \<noteq> []"
    by (simp add: sample_item_doc_def)
  from uoms_sorted_stock_first [OF h1 h2 h3 h4] h1 h2 h3 h4 show ?thesis
    by (simp add: sample_item_doc_def uom_entry_of_def)
qed


lemma and_conversion_try:
  assumes "item_code \<noteq> []"
    and "get_cached_doc pf item_code = Inr (Some item)"
    and "get_single_value pf = Inr allow"
  shows "get_item_uoms_and_conversion_try pf item_code req =
           (if allow \<and> uoms item \<noteq> []
            then and_then (requested_factor pf item_code item req) (\<lambda>f.
                   Inr \<lparr>uc_success = True, uc_message = None,
                        uc_uoms = map (uom_entry_of (stock_uom item)) (uoms item),
                        uc_conversion_factor = f,
                        uc_stock_uom = Some (stock_uom item),
                        uc_allow_custom_uom = Some allow\<rparr>)
            else Inr \<lparr>uc_success = True, uc_message = None,
                      uc_uoms = [stock_uom_entry (stock_uom item)],
                      uc_conversion_factor = 1,
                      uc_stock_uom = Some (stock_uom item),
                      uc_allow_custom_uom = Some allow\<rparr>)"
  using assms by (simp add: get_item_uoms_and_conversion_try_def and_then_def)














text \<open>
  Claim C10. In \<^verbatim>\<open>get_item_uoms_and_conversion\<close>, when the flag is off or the item has no
  UOM rows, the returned conversion factor is 1.0 for every requested unit, also one that is
  not the stock UOM, and the platform lookup is not consulted: the response is the same
  whatever that lookup would do, even if it would raise.
\<close>

theorem flag_off_factor_one:
  assumes "item_code \<noteq> []"
    and "get_cached_doc pf item_code = Inr (Some item)"
    and "get_single_value pf = Inr allow"
    and "\<not> allow \<or> uoms item = []"
  shows "get_item_uoms_and_conversion (pf\<lparr>get_conversion_factor := g\<rparr>) item_code req =
           Inr (\<lparr>uc_success = True, uc_message = None,
             uc_uoms = [stock_uom_entry (stock_uom item)],
             uc_conversion_factor = 1,
             uc_stock_uom = Some (stock_uom item),
             uc_allow_custom_uom = Some allow\<rparr>, [])"
proof -
  have "get_cached_doc (pf\<lparr>get_conversion_factor := g\<rparr>) item_code = Inr (Some item)"
    and "get_single_value (pf\<lparr>get_conversion_factor := g\<rparr>) = Inr allow"
    using assms(2,3) by simp_all
  from and_conversion_try [OF assms(1) this, of req] assms(4) show ?thesis
    by (auto simp: get_item_uoms_and_conversion_def)
qed

theorem flag_off_factor_one_witness:
  "''CAR-1'' \<noteq> [] \<and>
   get_cached_doc (sample_platform\<lparr>get_single_value := Inr False\<rparr>) ''CAR-1''
     = Inr (Some sample_item_doc) \<and>
   get_single_value (sample_platform\<lparr>get_single_value := Inr False\<rparr>) = Inr False \<and>
   get_item_uoms_and_conversion
     (sample_platform\<lparr>get_single_value := Inr False,
                      get_conversion_factor := (\<lambda>c u. Inl ''lookup failed'')\<rparr>)
     ''CAR-1'' (Some ''Dozen'') =
       Inr (\<lparr>uc_success = True, uc_message = None,
         uc_uoms = [\<lparr>entry_uom = ''Nos'', entry_conversion_factor = 1, is_stock_uom = True\<rparr>],
         uc_conversion_factor = 1,
         uc_stock_uom = Some ''Nos'',
         uc_allow_custom_uom = Some False\<rparr>, [])"
proof -
  let ?pf = "sample_platform\<lparr>get_single_value := Inr False\<rparr>"
  have h1: "''CAR-1'' \<noteq> []" by simp
  have h2: "get_cached_doc ?pf ''CAR-1'' = Inr (Some sample_item_doc)"
    by (simp add: sample_platform_def)
  have h3: "get_single_value ?pf = Inr False"
    by simp
  have h4: "\<not> False \<or> uoms sample_item_doc = []"
    by simp
  from flag_off_factor_one [OF h1 h2 h3 h4, of "\<lambda>c u. Inl ''lookup failed''" "Some ''Dozen''"]
    h1 h2 h3 h4
  show ?thesis
    by (simp add: sample_item_doc_def stock_uom_entry_def)
qed




section \<open>Properties of the opportunity calculations\<close>

lemma calc_item_dict:
  "calc_item pf (JDict d) =
     Inr \<lparr>row_item_code = dict_get d ''item_code'' JNull,
          row_qty = flt pf (dict_get d ''qty'' (JInt 0)),
          row_rate = flt pf (dict_get d ''rate'' (JInt 0)),
          row_conversion_factor = flt pf (dict_get d ''conversion_factor'' (JInt 1)),
          row_stock_qty =
            flt pf (dict_get d ''qty'' (JInt 0)) * flt pf (dict_get d ''conversion_factor'' (JInt 1)),
          row_amount =
            flt pf (dict_get d ''qty'' (JInt 0)) * flt pf (dict_get d ''conversion_factor'' (JInt 1))
              * flt pf (dict_get d ''rate'' (JInt 0)),
          row_stock_uom_rate =
            (if flt pf (dict_get d ''conversion_factor'' (JInt 1)) > 0
             then flt pf (dict_get d ''rate'' (JInt 0))
                    / flt pf (dict_get d ''conversion_factor'' (JInt 1))
             else 0),
          row_people_qty = flt pf (dict_get d ''custom__people_qty'' (JInt 0))\<rparr>"
  by (simp add: calc_item_def and_then_def truediv_def Let_def)

lemma calc_loop_dicts:
  "\<exists>rows. calc_loop pf (map JDict ds) (rs, tp, ta) =
            Inr (rs @ rows, tp + sum_list (map row_people_qty rows),
                 ta + sum_list (map row_amount rows)) \<and>
          list_all2 (\<lambda>d row. calc_item pf (JDict d) = Inr row) ds rows"
proof (induction ds arbitrary: rs tp ta)
  case Nil
  show ?case by simp
next
  case (Cons d ds)
  obtain row where row: "calc_item pf (JDict d) = Inr row"
    using calc_item_dict by blast
  from Cons.IH [of "rs @ [row]" "tp + row_people_qty row" "ta + row_amount row"]
  obtain rows where
    loop: "calc_loop pf (map JDict ds) (rs @ [row], tp + row_people_qty row, ta + row_amount row) =
             Inr ((rs @ [row]) @ rows, tp + row_people_qty row + sum_list (map row_people_qty rows),
                  ta + row_amount row + sum_list (map row_amount rows))"
    and all: "list_all2 (\<lambda>d row. calc_item pf (JDict d) = Inr row) ds rows"
    by blast
  have "calc_loop pf (map JDict (d # ds)) (rs, tp, ta) =
          Inr (rs @ (row # rows), tp + sum_list (map row_people_qty (row # rows)),
               ta + sum_list (map row_amount (row # rows)))"
    using row loop by (simp add: and_then_def add.assoc)
  moreover have "list_all2 (\<lambda>d row. calc_item pf (JDict d) = Inr row) (d # ds) (row # rows)"
    using row all by simp
  ultimately show ?case by blast
qed

lemma calculations_of_dicts:
  assumes "loads_if_str pf items_data = Inr (JList (map JDict ds))"
  shows "\<exists>rows. get_opportunity_calculations pf items_data =
           Inr (Success \<lparr>calc_items = rows,
                     total_people_qty = sum_list (map row_people_qty rows),
                     total_amount = sum_list (map row_amount rows)\<rparr>, []) \<and>
           list_all2 (\<lambda>d row. calc_item pf (JDict d) = Inr row) ds rows"
proof -
  from calc_loop_dicts [of pf ds "[]" 0 0] obtain rows where
    loop: "calc_loop pf (map JDict ds) ([], 0, 0) =
             Inr (rows, sum_list (map row_people_qty rows), sum_list (map row_amount rows))"
    and all: "list_all2 (\<lambda>d row. calc_item pf (JDict d) = Inr row) ds rows"
    by auto
  have "get_opportunity_calculations pf items_data =
           Inr (Success \<lparr>calc_items = rows,
                     total_people_qty = sum_list (map row_people_qty rows),
                     total_amount = sum_list (map row_amount rows)\<rparr>, [])"
    using assms loop
    by (simp add: get_opportunity_calculations_def get_opportunity_calculations_try_def
        and_then_def)
  with all show ?thesis by blast
qed

lemmas calc_eval =
  get_opportunity_calculations_def get_opportunity_calculations_try_def loads_if_str_def
  calc_item_def and_then_def truediv_def dict_get_def sample_platform_def Let_def

text \<open>
  Claim C1, as amended. For every list of item dictionaries given to
  \<^verbatim>\<open>get_opportunity_calculations\<close> the result is successful and contains, for each input
  item in order, \<^verbatim>\<open>stock_qty = qty * conversion_factor\<close>, \<^verbatim>\<open>amount = stock_qty * rate\<close>,
  and \<^verbatim>\<open>stock_uom_rate = rate / conversion_factor\<close> when the conversion factor is positive
  and 0 otherwise (the inputs coerced by \<^verbatim>\<open>flt\<close>, a missing \<^verbatim>\<open>qty\<close> or \<^verbatim>\<open>rate\<close> read
  as 0 and a missing \<^verbatim>\<open>conversion_factor\<close> as 1); \<^verbatim>\<open>total_amount\<close> is the sum of the
  amounts of the rows and \<^verbatim>\<open>total_people_qty\<close> the sum of their people quantities.
\<close>

theorem opportunity_calculations_rows:
  assumes "loads_if_str pf items_data = Inr (JList (map JDict ds))"
  shows "\<exists>c. get_opportunity_calculations pf items_data = Inr (Success c, []) \<and>
           list_all2
             (\<lambda>d row.
                row_qty row = flt pf (dict_get d ''qty'' (JInt 0)) \<and>
                row_rate row = flt pf (dict_get d ''rate'' (JInt 0)) \<and>
                row_conversion_factor row = flt pf (dict_get d ''conversion_factor'' (JInt 1)) \<and>
                row_people_qty row = flt pf (dict_get d ''custom__people_qty'' (JInt 0)) \<and>
                row_stock_qty row = row_qty row * row_conversion_factor row \<and>
                row_amount row = row_stock_qty row * row_rate row \<and>
                row_stock_uom_rate row =
                  (if row_conversion_factor row > 0
                   then row_rate row / row_conversion_factor row else 0))
             ds (calc_items c) \<and>
           total_amount c = sum_list (map row_amount (calc_items c)) \<and>
           total_people_qty c = sum_list (map row_people_qty (calc_items c))"
proof -
  from calculations_of_dicts [OF assms] obtain rows where
    r: "get_opportunity_calculations pf items_data =
           Inr (Success \<lparr>calc_items = rows,
                     total_people_qty = sum_list (map row_people_qty rows),
                     total_amount = sum_list (map row_amount rows)\<rparr>, [])"
    and all: "list_all2 (\<lambda>d row. calc_item pf (JDict d) = Inr row) ds rows"
    by blast
  have "list_all2
          (\<lambda>d row.
             row_qty row = flt pf (dict_get d ''qty'' (JInt 0)) \<and>
             row_rate row = flt pf (dict_get d ''rate'' (JInt 0)) \<and>
             row_conversion_factor row = flt pf (dict_get d ''conversion_factor'' (JInt 1)) \<and>
             row_people_qty row = flt pf (dict_get d ''custom__people_qty'' (JInt 0)) \<and>
             row_stock_qty row = row_qty row * row_conversion_factor row \<and>
             row_amount row = row_stock_qty row * row_rate row \<and>
             row_stock_uom_rate row =
               (if row_conversion_factor row > 0
                then row_rate row / row_conversion_factor row else 0))
          ds rows"
    using all by (rule list_all2_mono) (auto simp: calc_item_dict)
  with r show ?thesis by simp
qed

theorem opportunity_calculations_rows_witness:
  "loads_if_str sample_platform
     (JList [JDict [(''qty'', JInt 2), (''rate'', JInt 10), (''conversion_factor'', JInt 3),
                    (''custom__people_qty'', JInt 4)],
             JDict [(''rate'', JNum 5)]])
     = Inr (JList (map JDict
              [[(''qty'', JInt 2), (''rate'', JInt 10), (''conversion_factor'', JInt 3),
                (''custom__people_qty'', JInt 4)],
               [(''rate'', JNum 5)]])) \<and>
   (\<exists>c. get_opportunity_calculations sample_platform
          (JList [JDict [(''qty'', JInt 2), (''rate'', JInt 10), (''conversion_factor'', JInt 3),
                         (''custom__people_qty'', JInt 4)],
                  JDict [(''rate'', JNum 5)]]) = Inr (Success c, []) \<and>
        map row_stock_qty (calc_items c) = [6, 0] \<and>
        map row_amount (calc_items c) = [60, 0] \<and>
        map row_stock_uom_rate (calc_items c) = [10 / 3, 5] \<and>
        total_amount c = 60 \<and> total_people_qty c = 4)"
proof -
  let ?ds = "[[(''qty'', JInt 2), (''rate'', JInt 10), (''conversion_factor'', JInt 3),
               (''custom__people_qty'', JInt 4)],
              [(''rate'', JNum 5)]]"
  let ?x = "JList (map JDict ?ds)"
  have h: "loads_if_str sample_platform ?x = Inr (JList (map JDict ?ds))"
    by (simp add: loads_if_str_def)
  from opportunity_calculations_rows [OF h] obtain c where
    c: "get_opportunity_calculations sample_platform ?x = Inr (Success c, [])"
    by blast
  have "get_opportunity_calculations sample_platform ?x =
          Inr (Success
             \<lparr>calc_items =
                [\<lparr>row_item_code = JNull, row_qty = 2, row_rate = 10, row_conversion_factor = 3,
                  row_stock_qty = 6, row_amount = 60, row_stock_uom_rate = 10 / 3,
                  row_people_qty = 4\<rparr>,
                 \<lparr>row_item_code = JNull, row_qty = 0, row_rate = 5, row_conversion_factor = 1,
                  row_stock_qty = 0, row_amount = 0, row_stock_uom_rate = 5,
                  row_people_qty = 0\<rparr>],
              total_people_qty = 4, total_amount = 60\<rparr>, [])"
    by (simp add: calc_eval)
  with c have "map row_stock_qty (calc_items c) = [6, 0] \<and>
        map row_amount (calc_items c) = [60, 0] \<and>
        map row_stock_uom_rate (calc_items c) = [10 / 3, 5] \<and>
        total_amount c = 60 \<and> total_people_qty c = 4"
    by auto
  with c h show ?thesis by simp
qed

text \<open>
  The claim as stated gives \<^verbatim>\<open>stock_uom_rate = rate / conversion_factor\<close> for every item.
  For an item with rate 4 and conversion factor -2 the function returns 0, not -2.
\<close>

theorem stock_uom_rate_counterexample:
  "get_opportunity_calculations sample_platform
     (JList [JDict [(''qty'', JInt 3), (''rate'', JInt 4), (''conversion_factor'', JInt (- 2))]]) =
     Inr (Success
        \<lparr>calc_items =
           [\<lparr>row_item_code = JNull, row_qty = 3, row_rate = 4, row_conversion_factor = - 2,
             row_stock_qty = - 6, row_amount = - 24, row_stock_uom_rate = 0,
             row_people_qty = 0\<rparr>],
         total_people_qty = 0, total_amount = - 24\<rparr>, []) \<and>
   (0::real) \<noteq> 4 / (- 2)"
  by (simp add: calc_eval)

text \<open>
  Claim C2. In \<^verbatim>\<open>get_opportunity_calculations\<close> the division by the conversion factor
  happens only when the factor is positive: for every list of item dictionaries the call
  succeeds, so no division by zero is raised; every row whose factor is zero or negative has
  \<^verbatim>\<open>stock_uom_rate\<close> 0; and a row with a positive factor has the quotient, which is defined.
\<close>

theorem division_only_by_positive_factor:
  assumes "loads_if_str pf items_data = Inr (JList (map JDict ds))"
  shows "\<exists>c. get_opportunity_calculations pf items_data = Inr (Success c, []) \<and>
           (\<forall>row \<in> set (calc_items c).
              (row_conversion_factor row \<le> 0 \<longrightarrow> row_stock_uom_rate row = 0) \<and>
              (0 < row_conversion_factor row \<longrightarrow>
                 truediv (row_rate row) (row_conversion_factor row)
                   = Inr (row_stock_uom_rate row)))"
proof -
  from calculations_of_dicts [OF assms] obtain rows where
    r: "get_opportunity_calculations pf items_data =
           Inr (Success \<lparr>calc_items = rows,
                     total_people_qty = sum_list (map row_people_qty rows),
                     total_amount = sum_list (map row_amount rows)\<rparr>, [])"
    and all: "list_all2 (\<lambda>d row. calc_item pf (JDict d) = Inr row) ds rows"
    by blast
  have "(row_conversion_factor row \<le> 0 \<longrightarrow> row_stock_uom_rate row = 0) \<and>
        (0 < row_conversion_factor row \<longrightarrow>
           truediv (row_rate row) (row_conversion_factor row) = Inr (row_stock_uom_rate row))"
    if "row \<in> set rows" for row
  proof -
    from that all obtain d where "calc_item pf (JDict d) = Inr row"
      by (auto simp: in_set_conv_nth list_all2_conv_all_nth)
    then show ?thesis
      by (auto simp: calc_item_dict truediv_def)
  qed
  with r show ?thesis by simp
qed

theorem division_only_by_positive_factor_witness:
  "loads_if_str sample_platform
     (JList [JDict [(''rate'', JInt 5), (''conversion_factor'', JInt 0)],
             JDict [(''rate'', JInt 8), (''conversion_factor'', JInt 2)]])
     = Inr (JList (map JDict
              [[(''rate'', JInt 5), (''conversion_factor'', JInt 0)],
               [(''rate'', JInt 8), (''conversion_factor'', JInt 2)]])) \<and>
   (\<exists>c. get_opportunity_calculations sample_platform
          (JList [JDict [(''rate'', JInt 5), (''conversion_factor'', JInt 0)],
                  JDict [(''rate'', JInt 8), (''conversion_factor'', JInt 2)]]) = Inr (Success c, []) \<and>
        map row_conversion_factor (calc_items c) = [0, 2] \<and>
        map row_stock_uom_rate (calc_items c) = [0, 4])"
proof -
  let ?ds = "[[(''rate'', JInt 5), (''conversion_factor'', JInt 0)],
              [(''rate'', JInt 8), (''conversion_factor'', JInt 2)]]"
  let ?x = "JList (map JDict ?ds)"
  have h: "loads_if_str sample_platform ?x = Inr (JList (map JDict ?ds))"
    by (simp add: loads_if_str_def)
  from division_only_by_positive_factor [OF h] obtain c where
    c: "get_opportunity_calculations sample_platform ?x = Inr (Success c, [])"
    by blast
  have "get_opportunity_calculations sample_platform ?x =
          Inr (Success
             \<lparr>calc_items =
                [\<lparr>row_item_code = JNull, row_qty = 0, row_rate = 5, row_conversion_factor = 0,
                  row_stock_qty = 0, row_amount = 0, row_stock_uom_rate = 0,
                  row_people_qty = 0\<rparr>,
                 \<lparr>row_item_code = JNull, row_qty = 0, row_rate = 8, row_conversion_factor = 2,
                  row_stock_qty = 0, row_amount = 0, row_stock_uom_rate = 4,
                  row_people_qty = 0\<rparr>],
              total_people_qty = 0, total_amount = 0\<rparr>, [])"
    by (simp add: calc_eval)
  with c have "map row_conversion_factor (calc_items c) = [0, 2] \<and>
        map row_stock_uom_rate (calc_items c) = [0, 4]"
    by auto
  with c h show ?thesis by simp
qed

section \<open>Properties of the validation\<close>

text \<open>
  The name \<^verbatim>\<open>flt\<close> is bound neither in \<^verbatim>\<open>validate_opportunity_data\<close> nor at module
  level, so the body of the function raises on every dictionary, and returns no validation
  on any input at all.
\<close>

lemma flt_unbound:
  "load_name (validate_opportunity_data_imports @ module_names) ''flt''
     = Inl (''name '' @ quoted ''flt'' @ '' is not defined'')"
  by (simp add: load_name_def validate_opportunity_data_imports_def module_names_def)

lemma validate_dict_raises:
  "validate_opportunity_data_try pf (JDict d)
     = Inl (''name '' @ quoted ''flt'' @ '' is not defined'')"
  by (simp add: validate_opportunity_data_try_def loads_if_str_def and_then_def flt_unbound)

lemma validate_never_succeeds:
  "\<exists>e. validate_opportunity_data_try pf x = Inl e"
proof (cases "loads_if_str pf x")
  case (Inl e)
  then show ?thesis
    by (simp add: validate_opportunity_data_try_def and_then_def)
next
  case (Inr data)
  then show ?thesis
    by (cases data)
      (simp_all add: validate_opportunity_data_try_def and_then_def flt_unbound)
qed

text \<open>
  Claim C4 says that \<^verbatim>\<open>validate_opportunity_data\<close> records an error exactly when a date
  ordering is violated and returns \<^verbatim>\<open>valid\<close> accordingly. On the code, the call of
  \<^verbatim>\<open>flt\<close> at line 217 raises \<^verbatim>\<open>NameError\<close>: for an opportunity whose start date is after
  its expected closing the function logs the exception and returns the dictionary of its
  handler, with \<^verbatim>\<open>success\<close> false and neither \<^verbatim>\<open>errors\<close> nor \<^verbatim>\<open>valid\<close> (or it raises
  what the logging raises).
\<close>

theorem validate_dates_name_error:
  "validate_opportunity_data pf
     (JDict [(''custom_opportunity_start_date'', JStr ''2025-02-01''),
             (''expected_closing'', JStr ''2025-01-01''),
             (''items'', JList [])]) =
     (case log_error pf
             (''Error in validate_opportunity_data: '' @ ''name '' @ quoted ''flt''
                @ '' is not defined'') None of
        Some x \<Rightarrow> Inl x
      | None \<Rightarrow>
          Inr (Failure (format pf (tr pf ''Error validating data: {0}'')
                          [JStr (''name '' @ quoted ''flt'' @ '' is not defined'')]),
               [(''Error in validate_opportunity_data: '' @ ''name '' @ quoted ''flt''
                   @ '' is not defined'', None)]))"
  by (simp add: validate_opportunity_data_def validate_dict_raises log_then_return_def
      split: option.splits)

text \<open>
  Claim C9 says that a total of people above the threshold gives a warning and leaves
  \<^verbatim>\<open>valid\<close> true. On the code the same \<^verbatim>\<open>NameError\<close> is raised before the rows are
  read: with a threshold of 1 and one row of 5 people the function returns the dictionary
  of its handler, with no warning and no \<^verbatim>\<open>valid\<close> field.
\<close>

theorem validate_people_name_error:
  "validate_opportunity_data pf
     (JDict [(''custom_opportunity_people_qty'', JInt 1),
             (''items'', JList [JDict [(''custom__people_qty'', JInt 5)]])]) =
     (case log_error pf
             (''Error in validate_opportunity_data: '' @ ''name '' @ quoted ''flt''
                @ '' is not defined'') None of
        Some x \<Rightarrow> Inl x
      | None \<Rightarrow>
          Inr (Failure (format pf (tr pf ''Error validating data: {0}'')
                          [JStr (''name '' @ quoted ''flt'' @ '' is not defined'')]),
               [(''Error in validate_opportunity_data: '' @ ''name '' @ quoted ''flt''
                   @ '' is not defined'', None)]))"
  by (simp add: validate_opportunity_data_def validate_dict_raises log_then_return_def
      split: option.splits)

section \<open>Exceptions\<close>




lemma log_then_return_raises:
  "log_error pf text title = Some x \<Longrightarrow> log_then_return pf text title r = Inl x"
  by (simp add: log_then_return_def)






section \<open>Properties of the diagnostic report\<close>














end
